theory Spec2Isabelle
  imports Main
begin

section \<open>JavaScript values and objects\<close>

text \<open>
  A request field is whatever JSON carries: a string, a number, a boolean, \<open>null\<close>, an array
  or an object, or nothing (\<open>undefined\<close>). A number is modelled when it is an integer; an
  array or object is given by the two texts the program can obtain from it, its \<open>String\<close>
  conversion and its JSON text. The cells read from a CSV file are strings.
\<close>

datatype jsval =
    Undefined
  | Null
  | Bool bool
  | Num int
  | Str string
  | Compound string string

fun digits :: "nat \<Rightarrow> string" where
  "digits n = (if n < 10 then [''0123456789'' ! n] else digits (n div 10) @ [''0123456789'' ! (n mod 10)])"

definition decimal :: "int \<Rightarrow> string" where
  "decimal n = (if n < 0 then CHR ''-'' # digits (nat (- n)) else digits (nat n))"

fun truthy :: "jsval \<Rightarrow> bool" where
  "truthy Undefined = False"
| "truthy Null = False"
| "truthy (Bool b) = b"
| "truthy (Num n) = (n \<noteq> 0)"
| "truthy (Str s) = (s \<noteq> [])"
| "truthy (Compound a j) = True"

text \<open>Conversion to a string, as in a template literal or a computed property name.\<close>

fun to_string :: "jsval \<Rightarrow> string" where
  "to_string Undefined = ''undefined''"
| "to_string Null = ''null''"
| "to_string (Bool b) = (if b then ''true'' else ''false'')"
| "to_string (Num n) = decimal n"
| "to_string (Str s) = s"
| "to_string (Compound a j) = a"

text \<open>
  An object is the list of its own properties in the order \<open>Object.keys\<close> enumerates them:
  the array-index names first, in ascending numeric order, then the other names in the
  order of their creation. An assignment to \<open>__proto__\<close> creates no own property (the
  program only ever assigns strings under computed names), and reading \<open>__proto__\<close> gives
  the prototype object.
\<close>

type_synonym obj = "(string \<times> jsval) list"

definition index_value :: "string \<Rightarrow> nat" where
  "index_value k = foldl (\<lambda>n c. 10 * n + (of_char c - 48)) 0 k"

definition is_index :: "string \<Rightarrow> bool" where
  "is_index k =
     (k \<noteq> [] \<and> list_all (\<lambda>c. c \<in> set ''0123456789'') k \<and>
      (k = ''0'' \<or> hd k \<noteq> CHR ''0'') \<and> index_value k < 4294967295)"

primrec lookup :: "obj \<Rightarrow> string \<Rightarrow> jsval" where
  "lookup [] k = Undefined"
| "lookup (p # ps) k = (if fst p = k then snd p else lookup ps k)"

definition get_prop :: "obj \<Rightarrow> string \<Rightarrow> jsval" where
  "get_prop record k =
     (if k = ''__proto__'' then Compound ''[object Object]'' ''{}'' else lookup record k)"

primrec put_named :: "string \<Rightarrow> jsval \<Rightarrow> obj \<Rightarrow> obj" where
  "put_named k v [] = [(k, v)]"
| "put_named k v (p # ps) = (if fst p = k then (k, v) # ps else p # put_named k v ps)"

primrec put_index :: "string \<Rightarrow> jsval \<Rightarrow> obj \<Rightarrow> obj" where
  "put_index k v [] = [(k, v)]"
| "put_index k v (p # ps) =
     (if fst p = k then (k, v) # ps
      else if is_index (fst p) \<and> index_value (fst p) < index_value k then p # put_index k v ps
      else (k, v) # p # ps)"

text \<open>\<open>o[k] = v\<close>\<close>

definition set_prop :: "string \<Rightarrow> jsval \<Rightarrow> obj \<Rightarrow> obj" where
  "set_prop k v record =
     (if k = ''__proto__'' then record
      else if is_index k then put_index k v record
      else put_named k v record)"

text \<open>\<open>Array.prototype.findIndex\<close>, with \<open>None\<close> for \<open>-1\<close>.\<close>

primrec findIndex :: "('a \<Rightarrow> bool) \<Rightarrow> 'a list \<Rightarrow> nat option" where
  "findIndex P [] = None"
| "findIndex P (x # xs) =
     (if P x then Some 0 else (case findIndex P xs of None \<Rightarrow> None | Some i \<Rightarrow> Some (Suc i)))"

text \<open>\<open>s.split(c)\<close> and \<open>xs.join(sep)\<close>.\<close>

fun split :: "char \<Rightarrow> string \<Rightarrow> string list" where
  "split c [] = [[]]"
| "split c (x # xs) =
     (if x = c then [] # split c xs
      else (case split c xs of [] \<Rightarrow> [[x]] | w # ws \<Rightarrow> (x # w) # ws))"


section \<open>Persisted files\<close>

text \<open>
  Every route but one reads its files with \<open>csv-parser\<close> and writes them with
  \<open>csv-stringify\<close> (option \<open>header: true\<close>). Both are external libraries; a file is
  represented by the table it holds, a list of rows, each row the list of its
  (column, cell) pairs. The parser builds one object per row by assigning each cell under
  its column name. The writer takes its columns from the keys of the FIRST record only;
  every record is written under those columns, a missing field as the empty cell, and a
  field outside those columns is not written. An empty record list is written as an empty
  file.
\<close>

type_synonym row = "(string \<times> string) list"
type_synonym table = "row list"

fun cell :: "jsval \<Rightarrow> string" where
  "cell Undefined = []"
| "cell Null = []"
| "cell (Bool b) = (if b then ''1'' else [])"
| "cell (Num n) = decimal n"
| "cell (Str s) = s"
| "cell (Compound a j) = j"

definition write_record :: "string list \<Rightarrow> obj \<Rightarrow> row" where
  "write_record columns record = map (\<lambda>k. (k, cell (get_prop record k))) columns"

fun stringify :: "obj list \<Rightarrow> table" where
  "stringify [] = []"
| "stringify (r # rs) = map (write_record (map fst r)) (r # rs)"

definition parse_row :: "row \<Rightarrow> obj" where
  "parse_row r = foldl (\<lambda>record (k, v). set_prop k (Str v) record) [] r"

text \<open>
  The data directory holds the roster file, the subject registry file and the attendance
  directory, whose entries are files, listed in the order \<open>readdirSync\<close> returns them.
  \<open>path.join(ATTENDANCE_DIR, name)\<close> resolves the name lexically: empty and \<open>.\<close>
  components are dropped, \<open>..\<close> removes the component before it. A name that resolves to
  one component is an entry of the attendance directory. A name that resolves into a
  sub-directory reaches nothing, since the directory has none: no file exists there and
  none can be written. A name that climbs above the attendance directory leaves the store;
  it is treated like the former.
\<close>

datatype path = STUDENTS_FILE | SUBJECTS_FILE | AttendanceFile string | Unreachable string

fun normalize :: "string list \<Rightarrow> string list \<Rightarrow> string list option" where
  "normalize stack [] = Some (rev stack)"
| "normalize stack (c # cs) =
     (if c = [] \<or> c = ''.'' then normalize stack cs
      else if c = ''..'' then (case stack of [] \<Rightarrow> None | _ # st \<Rightarrow> normalize st cs)
      else normalize (c # stack) cs)"

definition attendance_path :: "string \<Rightarrow> path" where
  "attendance_path name =
     (case normalize [] (split CHR ''/'' name) of
        Some [f] \<Rightarrow> AttendanceFile f
      | _ \<Rightarrow> Unreachable name)"

definition sheet_path :: "string \<Rightarrow> path" where
  "sheet_path subject = attendance_path (subject @ ''_attendance.csv'')"

record store =
  students_data :: "table option"
  subjects_data :: "table option"
  attendance_dir :: "(string \<times> table) list"

primrec put_file :: "string \<Rightarrow> 'a \<Rightarrow> (string \<times> 'a) list \<Rightarrow> (string \<times> 'a) list" where
  "put_file f t [] = [(f, t)]"
| "put_file f t (e # es) = (if fst e = f then (f, t) # es else e # put_file f t es)"

fun file_content :: "store \<Rightarrow> path \<Rightarrow> table option" where
  "file_content s STUDENTS_FILE = students_data s"
| "file_content s SUBJECTS_FILE = subjects_data s"
| "file_content s (AttendanceFile f) = map_of (attendance_dir s) f"
| "file_content s (Unreachable name) = None"

definition existsSync :: "store \<Rightarrow> path \<Rightarrow> bool" where
  "existsSync s p = (file_content s p \<noteq> None)"

definition readCSV :: "store \<Rightarrow> path \<Rightarrow> obj list" where
  "readCSV s filePath =
     (case file_content s filePath of None \<Rightarrow> [] | Some t \<Rightarrow> map parse_row t)"

text \<open>
  What a route can catch: an error the program throws, with its message, or the rejection
  of a write whose directory does not exist.
\<close>

datatype exn = JsError string | FsError path

fun write_file :: "path \<Rightarrow> table \<Rightarrow> store \<Rightarrow> exn + store" where
  "write_file STUDENTS_FILE t s = Inr (s\<lparr>students_data := Some t\<rparr>)"
| "write_file SUBJECTS_FILE t s = Inr (s\<lparr>subjects_data := Some t\<rparr>)"
| "write_file (AttendanceFile f) t s = Inr (s\<lparr>attendance_dir := put_file f t (attendance_dir s)\<rparr>)"
| "write_file (Unreachable name) t s = Inl (FsError (Unreachable name))"

definition writeCSV :: "path \<Rightarrow> obj list \<Rightarrow> store \<Rightarrow> exn + store" where
  "writeCSV filePath data s = write_file filePath (stringify data) s"

text \<open>The data directory right after start-up: no file, an empty attendance directory.\<close>

definition fresh :: store where
  "fresh = \<lparr>students_data = None, subjects_data = None, attendance_dir = []\<rparr>"

section \<open>Attendance sheet helpers\<close>

definition getOrCreateAttendanceFile :: "string \<Rightarrow> store \<Rightarrow> (exn + path) \<times> store" where
  "getOrCreateAttendanceFile subject s =
     (let filePath = sheet_path subject in
      if \<not> existsSync s filePath then
        (let students = readCSV s STUDENTS_FILE;
             attendanceData =
               map (\<lambda>student. [(''name'', get_prop student ''name''),
                                (''roll'', get_prop student ''roll'')]) students
         in case writeCSV filePath attendanceData s of
              Inl e \<Rightarrow> (Inl e, s)
            | Inr s' \<Rightarrow> (Inr filePath, s'))
      else (Inr filePath, s))"

text \<open>A thrown error is the left injection; the store is what had been written by then.\<close>

definition updateStudentAttendance ::
  "string \<Rightarrow> jsval \<Rightarrow> string \<Rightarrow> store \<Rightarrow> (exn + obj list) \<times> store" where
  "updateStudentAttendance subject roll date s =
     (case getOrCreateAttendanceFile subject s of
        (Inl e, s1) \<Rightarrow> (Inl e, s1)
      | (Inr filePath, s1) \<Rightarrow>
          (let attendanceData = readCSV s1 filePath
           in case findIndex (\<lambda>record. get_prop record ''roll'' = roll) attendanceData of
                None \<Rightarrow>
                  (let students = readCSV s1 STUDENTS_FILE
                   in case find (\<lambda>st. get_prop st ''roll'' = roll) students of
                        Some student \<Rightarrow>
                          (let newRecord =
                                 set_prop date (Str ''Present'')
                                   [(''name'', get_prop student ''name''),
                                    (''roll'', get_prop student ''roll'')];
                               attendanceData' = attendanceData @ [newRecord]
                           in case writeCSV filePath attendanceData' s1 of
                                Inl e \<Rightarrow> (Inl e, s1)
                              | Inr s2 \<Rightarrow> (Inr attendanceData', s2))
                      | None \<Rightarrow>
                          (Inl (JsError (''Student with roll '' @ to_string roll @ '' not found'')),
                           s1))
              | Some studentIndex \<Rightarrow>
                  (let attendanceData' =
                         attendanceData[studentIndex :=
                           set_prop date (Str ''Present'') (attendanceData ! studentIndex)]
                   in case writeCSV filePath attendanceData' s1 of
                        Inl e \<Rightarrow> (Inl e, s1)
                      | Inr s2 \<Rightarrow> (Inr attendanceData', s2))))"

section \<open>Routes\<close>

text \<open>
  A reply is a status and a JSON body. Every CSV route answers an error it catches with
  status 500 and the error's message.
\<close>

datatype body =
    Message string
  | Error string
  | Caught exn
  | Records "obj list"
  | MessageStudent string obj
  | MessageSubject string jsval

datatype reply = Reply (status: nat) (body: body)

text \<open>GET /api/students\<close>

definition get_students :: "store \<Rightarrow> reply \<times> store" where
  "get_students s = (Reply 200 (Records (readCSV s STUDENTS_FILE)), s)"

text \<open>
  POST /api/students: the loop over the registered subjects, which stops at the first
  error, then the handler.
\<close>

fun add_to_sheets :: "jsval \<Rightarrow> jsval \<Rightarrow> obj list \<Rightarrow> store \<Rightarrow> exn option \<times> store" where
  "add_to_sheets name roll [] s = (None, s)"
| "add_to_sheets name roll (subject # subjects) s =
     (case getOrCreateAttendanceFile (to_string (get_prop subject ''subject'')) s of
        (Inl e, s1) \<Rightarrow> (Some e, s1)
      | (Inr filePath, s1) \<Rightarrow>
          (let attendanceData = readCSV s1 filePath in
           if \<not> list_ex (\<lambda>record. get_prop record ''roll'' = roll) attendanceData
           then (case writeCSV filePath
                        (attendanceData @ [[(''name'', name), (''roll'', roll)]]) s1 of
                   Inl e \<Rightarrow> (Some e, s1)
                 | Inr s2 \<Rightarrow> add_to_sheets name roll subjects s2)
           else add_to_sheets name roll subjects s1))"

definition post_students :: "jsval \<Rightarrow> jsval \<Rightarrow> jsval \<Rightarrow> store \<Rightarrow> reply \<times> store" where
  "post_students name roll descriptors s =
     (if \<not> truthy name \<or> \<not> truthy roll \<or> \<not> truthy descriptors
      then (Reply 400 (Error ''Missing required fields''), s)
      else
        (let students = readCSV s STUDENTS_FILE;
             student = [(''name'', name), (''roll'', roll), (''descriptors'', descriptors)];
             saved = Reply 201 (MessageStudent ''Student saved successfully''
                                  [(''name'', name), (''roll'', roll)])
         in case findIndex (\<lambda>st. get_prop st ''roll'' = roll) students of
              Some existingIndex \<Rightarrow>
                (case writeCSV STUDENTS_FILE (students[existingIndex := student]) s of
                   Inl e \<Rightarrow> (Reply 500 (Caught e), s)
                 | Inr s' \<Rightarrow> (saved, s'))
            | None \<Rightarrow>
                (case add_to_sheets name roll (readCSV s SUBJECTS_FILE) s of
                   (Some e, s1) \<Rightarrow> (Reply 500 (Caught e), s1)
                 | (None, s1) \<Rightarrow>
                     (case writeCSV STUDENTS_FILE (students @ [student]) s1 of
                        Inl e \<Rightarrow> (Reply 500 (Caught e), s1)
                      | Inr s2 \<Rightarrow> (saved, s2)))))"

text \<open>DELETE /api/students/:roll\<close>

fun remove_from_sheets :: "string \<Rightarrow> obj list \<Rightarrow> store \<Rightarrow> exn option \<times> store" where
  "remove_from_sheets roll [] s = (None, s)"
| "remove_from_sheets roll (subject # subjects) s =
     (let filePath = sheet_path (to_string (get_prop subject ''subject'')) in
      if existsSync s filePath
      then (case writeCSV filePath
                   (filter (\<lambda>record. get_prop record ''roll'' \<noteq> Str roll) (readCSV s filePath)) s of
              Inl e \<Rightarrow> (Some e, s)
            | Inr s1 \<Rightarrow> remove_from_sheets roll subjects s1)
      else remove_from_sheets roll subjects s)"

definition delete_student :: "string \<Rightarrow> store \<Rightarrow> reply \<times> store" where
  "delete_student roll s =
     (let students = filter (\<lambda>student. get_prop student ''roll'' \<noteq> Str roll)
                       (readCSV s STUDENTS_FILE)
      in case writeCSV STUDENTS_FILE students s of
           Inl e \<Rightarrow> (Reply 500 (Caught e), s)
         | Inr s1 \<Rightarrow>
             (case remove_from_sheets roll (readCSV s1 SUBJECTS_FILE) s1 of
                (Some e, s2) \<Rightarrow> (Reply 500 (Caught e), s2)
              | (None, s2) \<Rightarrow> (Reply 200 (Message ''Student removed successfully''), s2)))"




text \<open>GET /api/subjects\<close>

definition endsWith :: "string \<Rightarrow> string \<Rightarrow> bool" where
  "endsWith s suffix = (length suffix \<le> length s \<and> drop (length s - length suffix) s = suffix)"

text \<open>\<open>s.replace(pattern, replacement)\<close> with a string pattern: the first occurrence only.\<close>

fun replace :: "string \<Rightarrow> string \<Rightarrow> string \<Rightarrow> string" where
  "replace pattern replacement [] = (if pattern = [] then replacement else [])"
| "replace pattern replacement (c # cs) =
     (if take (length pattern) (c # cs) = pattern
      then replacement @ drop (length pattern) (c # cs)
      else c # replace pattern replacement cs)"

fun scan_files :: "string list \<Rightarrow> obj list \<Rightarrow> obj list" where
  "scan_files [] subjects = subjects"
| "scan_files (file # files) subjects =
     (if endsWith file ''_attendance.csv'' then
        (let subjectName = replace ''_attendance.csv'' [] file in
         if \<not> list_ex (\<lambda>s. get_prop s ''subject'' = Str subjectName) subjects
         then scan_files files (subjects @ [[(''subject'', Str subjectName)]])
         else scan_files files subjects)
      else scan_files files subjects)"

definition get_subjects :: "store \<Rightarrow> reply \<times> store" where
  "get_subjects s =
     (let subjects = readCSV s SUBJECTS_FILE;
          attendanceFiles = map fst (attendance_dir s);
          subjects' = scan_files attendanceFiles subjects
      in case writeCSV SUBJECTS_FILE subjects' s of
           Inl e \<Rightarrow> (Reply 500 (Caught e), s)
         | Inr s' \<Rightarrow> (Reply 200 (Records subjects'), s'))"

text \<open>POST /api/subjects\<close>

definition post_subjects :: "jsval \<Rightarrow> store \<Rightarrow> reply \<times> store" where
  "post_subjects subject s =
     (if \<not> truthy subject then (Reply 400 (Error ''Missing subject name''), s)
      else
        (let subjects = readCSV s SUBJECTS_FILE in
         if list_ex (\<lambda>sb. get_prop sb ''subject'' = subject) subjects
         then (Reply 409 (Error ''Subject already exists''), s)
         else
           (case writeCSV SUBJECTS_FILE (subjects @ [[(''subject'', subject)]]) s of
              Inl e \<Rightarrow> (Reply 500 (Caught e), s)
            | Inr s1 \<Rightarrow>
                (case getOrCreateAttendanceFile (to_string subject) s1 of
                   (Inl e, s2) \<Rightarrow> (Reply 500 (Caught e), s2)
                 | (Inr filePath, s2) \<Rightarrow>
                     (Reply 201 (MessageSubject ''Subject added successfully'' subject), s2)))))"

text \<open>POST /api/attendance\<close>

definition post_attendance ::
  "jsval \<Rightarrow> jsval \<Rightarrow> jsval \<Rightarrow> jsval \<Rightarrow> store \<Rightarrow> reply \<times> store" where
  "post_attendance name roll subject date s =
     (if \<not> truthy name \<or> \<not> truthy roll \<or> \<not> truthy subject \<or> \<not> truthy date
      then (Reply 400 (Error ''Missing required fields''), s)
      else
        (case updateStudentAttendance (to_string subject) roll (to_string date) s of
           (Inr attendanceData, s') \<Rightarrow>
             (Reply 201 (Message ''Attendance marked successfully''), s')
         | (Inl e, s') \<Rightarrow> (Reply 500 (Caught e), s')))"

text \<open>GET /api/attendance/:subject/:date\<close>

definition get_attendance :: "string \<Rightarrow> string \<Rightarrow> store \<Rightarrow> reply \<times> store" where
  "get_attendance subject date s =
     (let filePath = sheet_path subject in
      if \<not> existsSync s filePath then (Reply 200 (Records []), s)
      else
        (let attendanceData = readCSV s filePath;
             records =
               map (\<lambda>record. [(''name'', get_prop record ''name''),
                               (''roll'', get_prop record ''roll''),
                               (''date'', Str date),
                               (''time'', Str ''00:00:00''),
                               (''subject'', Str subject)])
                 (filter (\<lambda>record. get_prop record date = Str ''Present'') attendanceData)
         in (Reply 200 (Records records), s)))"

section \<open>Deleting today's column\<close>









section \<open>Requests and the states they reach\<close>






text \<open>
  What every table written by these requests has: in each row the column names are
  distinct, none is \<open>__proto__\<close> or an array index, and one is \<open>roll\<close>.
\<close>

definition ordinary :: "string \<Rightarrow> bool" where
  "ordinary k = (k \<noteq> ''__proto__'' \<and> \<not> is_index k)"

definition tidy_keys :: "string list \<Rightarrow> bool" where
  "tidy_keys ks = (distinct ks \<and> list_all ordinary ks \<and> ''roll'' \<in> set ks)"





section \<open>Facts about the helpers\<close>

lemma findIndex_None: "findIndex P xs = None \<longleftrightarrow> \<not> list_ex P xs"
  by (induction xs) (auto split: option.splits)

lemmas run =
  Let_def get_prop_def set_prop_def parse_row_def write_record_def is_index_def
  readCSV_def writeCSV_def existsSync_def sheet_path_def attendance_path_def fresh_def

lemma not_index_name [simp]: "\<not> is_index ''name''" "\<not> is_index ''roll''"
  "\<not> is_index ''descriptors''" "\<not> is_index ''subject''"
  by (simp_all add: is_index_def)

section \<open>Reading attendance\<close>

text \<open>
  Claim C4. For every subject and date, GET /api/attendance/:subject/:date answers with one
  entry (name, roll, date, the constant time, subject) for each sheet row whose field for
  that date is exactly the string Present, in sheet order, and for no other row; when the
  sheet file does not exist the answer is the empty list, with status 200.
\<close>

theorem get_attendance_present_rows:
  "get_attendance subject date s =
     (Reply 200 (Records
        (map (\<lambda>record. [(''name'', get_prop record ''name''), (''roll'', get_prop record ''roll''),
                         (''date'', Str date), (''time'', Str ''00:00:00''),
                         (''subject'', Str subject)])
           (filter (\<lambda>record. get_prop record date = Str ''Present'')
              (readCSV s (sheet_path subject))))), s) \<and>
   (\<not> existsSync s (sheet_path subject) \<longrightarrow>
      get_attendance subject date s = (Reply 200 (Records []), s))"
  by (simp add: get_attendance_def Let_def readCSV_def existsSync_def)

theorem get_attendance_present_rows_witness:
  "get_attendance ''Math'' ''2024-01-10''
     \<lparr>students_data = None, subjects_data = None,
      attendance_dir =
        [(''Math_attendance.csv'',
          [[(''name'', ''Ann''), (''roll'', ''1''), (''2024-01-10'', ''Present'')],
           [(''name'', ''Bob''), (''roll'', ''2''), (''2024-01-10'', '''')],
           [(''name'', ''Cy''), (''roll'', ''3''), (''2024-01-10'', ''present'')],
           [(''name'', ''Di''), (''roll'', ''4'')]])]\<rparr>
   = (Reply 200 (Records
        [[(''name'', Str ''Ann''), (''roll'', Str ''1''), (''date'', Str ''2024-01-10''),
          (''time'', Str ''00:00:00''), (''subject'', Str ''Math'')]]),
      \<lparr>students_data = None, subjects_data = None,
       attendance_dir =
        [(''Math_attendance.csv'',
          [[(''name'', ''Ann''), (''roll'', ''1''), (''2024-01-10'', ''Present'')],
           [(''name'', ''Bob''), (''roll'', ''2''), (''2024-01-10'', '''')],
           [(''name'', ''Cy''), (''roll'', ''3''), (''2024-01-10'', ''present'')],
           [(''name'', ''Di''), (''roll'', ''4'')]])]\<rparr>) \<and>
   \<not> existsSync fresh (sheet_path ''Math'') \<and>
   get_attendance ''Math'' ''2024-01-10'' fresh = (Reply 200 (Records []), fresh)"
  using get_attendance_present_rows [of "''Math''" "''2024-01-10''" fresh]
    get_attendance_present_rows [of "''Math''" "''2024-01-10''"
     "\<lparr>students_data = None, subjects_data = None,
      attendance_dir =
        [(''Math_attendance.csv'',
          [[(''name'', ''Ann''), (''roll'', ''1''), (''2024-01-10'', ''Present'')],
           [(''name'', ''Bob''), (''roll'', ''2''), (''2024-01-10'', '''')],
           [(''name'', ''Cy''), (''roll'', ''3''), (''2024-01-10'', ''present'')],
           [(''name'', ''Di''), (''roll'', ''4'')]])]\<rparr>"]
  by (simp add: run)

section \<open>Registering a student\<close>

text \<open>
  Claim C9. When POST /api/students is called with valid fields and a roll that the roster
  already holds, the record at the first matching index is replaced and the roster file
  rewritten; the attendance directory (every sheet, also one without a row for that roll)
  and the subject registry are exactly what they were.
\<close>

theorem upsert_existing_leaves_sheets:
  assumes "truthy name" and "truthy roll" and "truthy descriptors"
    and "list_ex (\<lambda>st. get_prop st ''roll'' = roll) (readCSV s STUDENTS_FILE)"
  shows "(\<exists>i. findIndex (\<lambda>st. get_prop st ''roll'' = roll) (readCSV s STUDENTS_FILE) = Some i \<and>
              post_students name roll descriptors s =
                (Reply 201 (MessageStudent ''Student saved successfully''
                              [(''name'', name), (''roll'', roll)]),
                 s\<lparr>students_data :=
                      Some (stringify ((readCSV s STUDENTS_FILE)
                              [i := [(''name'', name), (''roll'', roll),
                                     (''descriptors'', descriptors)]]))\<rparr>)) \<and>
         attendance_dir (snd (post_students name roll descriptors s)) = attendance_dir s \<and>
         subjects_data (snd (post_students name roll descriptors s)) = subjects_data s"
proof -
  from assms(4) obtain i where
    i: "findIndex (\<lambda>st. get_prop st ''roll'' = roll) (readCSV s STUDENTS_FILE) = Some i"
    using findIndex_None [of "\<lambda>st. get_prop st ''roll'' = roll" "readCSV s STUDENTS_FILE"]
    by (cases "findIndex (\<lambda>st. get_prop st ''roll'' = roll) (readCSV s STUDENTS_FILE)") auto
  with assms(1-3) show ?thesis
    by (simp add: post_students_def Let_def writeCSV_def)
qed

theorem upsert_existing_leaves_sheets_witness:
  "truthy (Str ''Ann B'') \<and> truthy (Str ''1'') \<and> truthy (Str ''d9'') \<and>
   list_ex (\<lambda>st. get_prop st ''roll'' = Str ''1'')
     (readCSV \<lparr>students_data = Some [[(''name'', ''Ann''), (''roll'', ''1''), (''descriptors'', ''d1'')]],
               subjects_data = Some [[(''subject'', ''Math'')]],
               attendance_dir = [(''Math_attendance.csv'', [])]\<rparr> STUDENTS_FILE) \<and>
   snd (post_students (Str ''Ann B'') (Str ''1'') (Str ''d9'')
          \<lparr>students_data = Some [[(''name'', ''Ann''), (''roll'', ''1''), (''descriptors'', ''d1'')]],
           subjects_data = Some [[(''subject'', ''Math'')]],
           attendance_dir = [(''Math_attendance.csv'', [])]\<rparr>) =
     \<lparr>students_data = Some [[(''name'', ''Ann B''), (''roll'', ''1''), (''descriptors'', ''d9'')]],
      subjects_data = Some [[(''subject'', ''Math'')]],
      attendance_dir = [(''Math_attendance.csv'', [])]\<rparr>"
  using upsert_existing_leaves_sheets [of "Str ''Ann B''" "Str ''1''" "Str ''d9''"
     "\<lparr>students_data = Some [[(''name'', ''Ann''), (''roll'', ''1''), (''descriptors'', ''d1'')]],
       subjects_data = Some [[(''subject'', ''Math'')]],
       attendance_dir = [(''Math_attendance.csv'', [])]\<rparr>"]
  by (simp add: run)

section \<open>Removing a student\<close>

text \<open>
  Claim C6 (the code departs from it). The handler removes the student's rows only from the
  sheets of the subjects listed in the registry file. A sheet created by marking attendance
  for a subject that was never registered is not visited: starting from a fresh data
  directory, register Ann (roll 1), mark her present in Math on 2024-01-10, delete roll 1;
  the roster is then empty, but the Math sheet still holds her row and the query for that
  date still returns her entry.
\<close>

theorem delete_student_misses_unregistered_sheet:
  "(let s1 = snd (post_students (Str ''Ann'') (Str ''1'') (Str ''d1'') fresh);
        s2 = snd (post_attendance (Str ''Ann'') (Str ''1'') (Str ''Math'') (Str ''2024-01-10'') s1);
        s3 = snd (delete_student ''1'' s2)
    in readCSV s3 STUDENTS_FILE = [] \<and>
       readCSV s3 SUBJECTS_FILE = [] \<and>
       attendance_dir s3 =
         [(''Math_attendance.csv'',
           [[(''name'', ''Ann''), (''roll'', ''1''), (''2024-01-10'', ''Present'')]])] \<and>
       fst (get_attendance ''Math'' ''2024-01-10'' s3) =
         Reply 200 (Records [[(''name'', Str ''Ann''), (''roll'', Str ''1''),
                              (''date'', Str ''2024-01-10''), (''time'', Str ''00:00:00''),
                              (''subject'', Str ''Math'')]]))"
  by (simp add: run post_students_def post_attendance_def updateStudentAttendance_def
      getOrCreateAttendanceFile_def delete_student_def get_attendance_def)

theorem delete_student_misses_unregistered_sheet_witness:
  "fst (get_attendance ''Math'' ''2024-01-10''
         (snd (delete_student ''1''
            (snd (post_attendance (Str ''Ann'') (Str ''1'') (Str ''Math'') (Str ''2024-01-10'')
               (snd (post_students (Str ''Ann'') (Str ''1'') (Str ''d1'') fresh))))))) =
     Reply 200 (Records [[(''name'', Str ''Ann''), (''roll'', Str ''1''),
                          (''date'', Str ''2024-01-10''), (''time'', Str ''00:00:00''),
                          (''subject'', Str ''Math'')]])"
  using delete_student_misses_unregistered_sheet by (simp add: Let_def)

section \<open>Listing the subjects\<close>

text \<open>
  Claim C7 (the code departs from it). The subject of a sheet file is inferred by deleting
  the FIRST occurrence of \<open>_attendance.csv\<close> from the file name, not the suffix. For the
  subject \<open>_attendance.csvX\<close>, whose sheet is created by a call of POST /api/attendance,
  the file is \<open>_attendance.csvX_attendance.csv\<close> and the listing infers, returns and
  registers \<open>X_attendance.csv\<close>: after the call the registry does not contain the subject
  that has the sheet on disk.
\<close>

theorem get_subjects_misnames_subject:
  "(let s1 = snd (post_attendance (Str ''Zed'') (Str ''9'') (Str ''_attendance.csvX'')
                    (Str ''2024-01-10'') fresh);
        s2 = snd (get_subjects s1)
    in existsSync s1 (sheet_path ''_attendance.csvX'') \<and>
       map fst (attendance_dir s1) = [''_attendance.csvX_attendance.csv''] \<and>
       fst (get_subjects s1) = Reply 200 (Records [[(''subject'', Str ''X_attendance.csv'')]]) \<and>
       readCSV s2 SUBJECTS_FILE = [[(''subject'', Str ''X_attendance.csv'')]] \<and>
       \<not> list_ex (\<lambda>sb. get_prop sb ''subject'' = Str ''_attendance.csvX'')
           (readCSV s2 SUBJECTS_FILE))"
  by (simp add: run post_attendance_def updateStudentAttendance_def
      getOrCreateAttendanceFile_def get_subjects_def endsWith_def)

theorem get_subjects_misnames_subject_witness:
  "readCSV (snd (get_subjects
       (snd (post_attendance (Str ''Zed'') (Str ''9'') (Str ''_attendance.csvX'')
               (Str ''2024-01-10'') fresh)))) SUBJECTS_FILE
     = [[(''subject'', Str ''X_attendance.csv'')]]"
  using get_subjects_misnames_subject by (simp add: Let_def)

section \<open>Paths\<close>



lemma map_of_put_file: "map_of (put_file f t d) = (map_of d)(f \<mapsto> t)"
  by (induction d) auto



section \<open>Absent files\<close>

text \<open>
  Claim C10. Reading a file that does not exist yields the empty record list, for every
  path. Hence on a fresh data directory GET /api/students and GET /api/subjects answer
  200 with the empty array, and creating a sheet while the roster is empty writes a sheet
  with zero rows. (For a subject whose file name resolves into a sub-directory no sheet
  is created: the write is rejected and the store is left as it is.)
\<close>

theorem absent_file_reads_empty:
  "(\<not> existsSync s filePath \<longrightarrow> readCSV s filePath = []) \<and>
   get_students fresh = (Reply 200 (Records []), fresh) \<and>
   fst (get_subjects fresh) = Reply 200 (Records []) \<and>
   (readCSV s STUDENTS_FILE = [] \<and> \<not> existsSync s (sheet_path subject) \<longrightarrow>
      (case sheet_path subject of
         Unreachable name \<Rightarrow>
           getOrCreateAttendanceFile subject s = (Inl (FsError (Unreachable name)), s)
       | _ \<Rightarrow>
           fst (getOrCreateAttendanceFile subject s) = Inr (sheet_path subject) \<and>
           file_content (snd (getOrCreateAttendanceFile subject s)) (sheet_path subject)
             = Some []))"
proof -
  have "case sheet_path subject of
         Unreachable name \<Rightarrow>
           getOrCreateAttendanceFile subject s = (Inl (FsError (Unreachable name)), s)
       | _ \<Rightarrow>
           fst (getOrCreateAttendanceFile subject s) = Inr (sheet_path subject) \<and>
           file_content (snd (getOrCreateAttendanceFile subject s)) (sheet_path subject)
             = Some []"
    if r: "readCSV s STUDENTS_FILE = []" and n: "\<not> existsSync s (sheet_path subject)"
  proof (cases "sheet_path subject")
    case STUDENTS_FILE
    then show ?thesis
      by (simp add: sheet_path_def attendance_path_def split: option.splits list.splits)
  next
    case SUBJECTS_FILE
    then show ?thesis
      by (simp add: sheet_path_def attendance_path_def split: option.splits list.splits)
  next
    case (AttendanceFile f)
    with r n show ?thesis
      by (simp add: getOrCreateAttendanceFile_def Let_def writeCSV_def map_of_put_file)
  next
    case (Unreachable name)
    with n show ?thesis
      by (simp add: getOrCreateAttendanceFile_def Let_def writeCSV_def)
  qed
  then show ?thesis
    by (simp add: readCSV_def existsSync_def get_students_def get_subjects_def fresh_def
        writeCSV_def)
qed

theorem absent_file_reads_empty_witness:
  "\<not> existsSync fresh STUDENTS_FILE \<and> readCSV fresh STUDENTS_FILE = [] \<and>
   \<not> existsSync fresh (sheet_path ''Math'') \<and>
   file_content (snd (getOrCreateAttendanceFile ''Math'' fresh)) (sheet_path ''Math'') = Some []"
  using absent_file_reads_empty [where s = fresh and filePath = STUDENTS_FILE and subject = "''Math''"]
  by (simp add: run)

section \<open>Sheet creation\<close>




section \<open>Roll-number uniqueness\<close>

lemma decimal_1: "decimal 1 = ''1''"
  by (simp add: decimal_def)

text \<open>
  Claim C5 (the code departs from it). The roster and the sheets are searched with
  \<open>===\<close> against the posted roll, while the rolls read from a CSV file are strings. A roll
  posted as the JSON number 1 is never found: starting from a fresh data directory with the
  subject Math registered, the same POST /api/students sent twice is answered 201 twice and
  leaves two roster records and two sheet rows with the roll 1.
\<close>

theorem upsert_number_roll_twice:
  "(let s0 = snd (post_subjects (Str ''Math'') fresh);
        s1 = snd (post_students (Str ''Ann'') (Num 1) (Str ''d1'') s0);
        s2 = snd (post_students (Str ''Ann'') (Num 1) (Str ''d1'') s1)
    in fst (post_students (Str ''Ann'') (Num 1) (Str ''d1'') s1) =
         Reply 201 (MessageStudent ''Student saved successfully''
                      [(''name'', Str ''Ann''), (''roll'', Num 1)]) \<and>
       students_data s2 =
         Some [[(''name'', ''Ann''), (''roll'', ''1''), (''descriptors'', ''d1'')],
               [(''name'', ''Ann''), (''roll'', ''1''), (''descriptors'', ''d1'')]] \<and>
       attendance_dir s2 =
         [(''Math_attendance.csv'', [[(''name'', ''Ann''), (''roll'', ''1'')],
                                     [(''name'', ''Ann''), (''roll'', ''1'')]])] \<and>
       length (filter (\<lambda>st. get_prop st ''roll'' = Str ''1'') (readCSV s2 STUDENTS_FILE)) = 2)"
  by (simp add: run post_subjects_def post_students_def getOrCreateAttendanceFile_def decimal_1)

theorem upsert_number_roll_twice_witness:
  "students_data
     (snd (post_students (Str ''Ann'') (Num 1) (Str ''d1'')
        (snd (post_students (Str ''Ann'') (Num 1) (Str ''d1'')
           (snd (post_subjects (Str ''Math'') fresh)))))) =
     Some [[(''name'', ''Ann''), (''roll'', ''1''), (''descriptors'', ''d1'')],
           [(''name'', ''Ann''), (''roll'', ''1''), (''descriptors'', ''d1'')]]"
  using upsert_number_roll_twice by (simp add: Let_def)

section \<open>Marking attendance\<close>
















section \<open>Deleting today's column from a sheet\<close>















section \<open>Objects with ordinary property names\<close>




lemma ordinary_names [simp]:
  "ordinary ''name''" "ordinary ''roll''" "ordinary ''descriptors''" "ordinary ''subject''"
  by (simp_all add: ordinary_def)





section \<open>Writing and reading again\<close>










section \<open>The sheet of a subject\<close>









section \<open>Rows and their rolls\<close>




lemma tidy_keysD:
  "tidy_keys ks \<Longrightarrow> distinct ks \<and> list_all ordinary ks \<and> ''roll'' \<in> set ks"
  by (simp add: tidy_keys_def)





section \<open>Marking the same attendance twice\<close>


section \<open>What the routes keep\<close>





















section \<open>Marking twice, on the states the routes reach\<close>



end
